theory Spec2Isabelle
  imports Main
begin

section \<open>Python values used by window.py\<close>

text \<open>
  A Python \<open>str\<close> is a sequence of Unicode code points. The dialog's messages are
  Chinese and the input field accepts any text, so a string is modelled as the list
  of its code points (natural numbers), not as a list of bytes.
\<close>

type_synonym pystr = "nat list"

definition lit :: "string \<Rightarrow> pystr" where
  \<comment> \<open>an ASCII literal of the source, as code points\<close>
  "lit s = map of_char s"

definition py_isspace :: "nat \<Rightarrow> bool" where
  \<comment> \<open>the characters \<open>str.strip()\<close> and \<open>str.split()\<close> treat as whitespace:
      U+0009..U+000D, U+001C..U+0020, U+0085, U+00A0, U+1680, U+2000..U+200A,
      U+2028, U+2029, U+202F, U+205F, U+3000\<close>
  "py_isspace c =
     ((9 \<le> c \<and> c \<le> 13) \<or> (28 \<le> c \<and> c \<le> 32) \<or> c = 133 \<or> c = 160 \<or> c = 5760 \<or>
      (8192 \<le> c \<and> c \<le> 8202) \<or> c = 8232 \<or> c = 8233 \<or> c = 8239 \<or> c = 8287 \<or>
      c = 12288)"

definition py_strip :: "pystr \<Rightarrow> pystr" where
  \<comment> \<open>\<open>s.strip()\<close>: leading and trailing whitespace removed\<close>
  "py_strip s = rev (dropWhile py_isspace (rev (dropWhile py_isspace s)))"

function py_split :: "pystr \<Rightarrow> pystr list" where
  \<comment> \<open>\<open>s.split()\<close>: skip a run of whitespace, cut the token up to the next
      whitespace, repeat; no empty token is produced\<close>
  "py_split s =
     (let t = dropWhile py_isspace s
      in if t = [] then []
         else takeWhile (\<lambda>c. \<not> py_isspace c) t #
              py_split (dropWhile (\<lambda>c. \<not> py_isspace c) t))"
  by pat_completeness auto
termination
proof (relation "measure length")
  show "wf (measure length)" by simp
next
  fix s t :: pystr
  assume t: "t = dropWhile py_isspace s" and ne: "t \<noteq> []"
  from ne obtain x xs where tx: "t = x # xs" by (cases t) auto
  from t tx have "dropWhile py_isspace s = x # xs" by simp
  then have "\<not> py_isspace x" by (simp add: dropWhile_eq_Cons_conv)
  with tx have "length (dropWhile (\<lambda>c. \<not> py_isspace c) t) \<le> length xs"
    by (simp add: length_dropWhile_le)
  also have "\<dots> < length t" using tx by simp
  also have "\<dots> \<le> length s" using t by (simp add: length_dropWhile_le)
  finally show "(dropWhile (\<lambda>c. \<not> py_isspace c) t, s) \<in> measure length" by simp
qed

declare py_split.simps [simp del]

subsection \<open>The conversion int(str)\<close>

definition decimal_zeros :: "nat list" where
  \<comment> \<open>the code point of digit zero of every decimal-digit block of the Unicode
      database (version 14.0.0); each block is ten consecutive code points\<close>
  "decimal_zeros =
     [48, 1632, 1776, 1984, 2406, 2534, 2662, 2790, 2918, 3046, 3174, 3302, 3430, 3558,
      3664, 3792, 3872, 4160, 4240, 6112, 6160, 6470, 6608, 6784, 6800, 6992, 7088, 7232,
      7248, 42528, 43216, 43264, 43472, 43504, 43600, 44016, 65296, 66720, 68912, 69734,
      69872, 69942, 70096, 70384, 70736, 70864, 71248, 71360, 71472, 71904, 72016, 72784,
      73040, 73120, 92768, 92864, 93008, 120782, 120792, 120802, 120812, 120822, 123200,
      123632, 125264, 130032]"

definition py_todecimal :: "nat \<Rightarrow> nat option" where
  \<comment> \<open>the decimal value of a character, when it is a decimal digit\<close>
  "py_todecimal c =
     (case find (\<lambda>z. z \<le> c \<and> c < z + 10) decimal_zeros of
        None \<Rightarrow> None
      | Some z \<Rightarrow> Some (c - z))"

definition int_isspace :: "nat \<Rightarrow> bool" where
  \<comment> \<open>the whitespace \<open>int()\<close> skips around a literal: the ASCII ones are
      U+0009..U+000D and U+0020 only, the others are all of Unicode's\<close>
  "int_isspace c = (py_isspace c \<and> \<not> (28 \<le> c \<and> c \<le> 31))"

definition is_literal_char :: "nat \<Rightarrow> bool" where
  \<comment> \<open>a digit or an underscore\<close>
  "is_literal_char c = (c = 95 \<or> py_todecimal c \<noteq> None)"

fun double_underscore :: "pystr \<Rightarrow> bool" where
  "double_underscore (a # b # cs) = ((a = 95 \<and> b = 95) \<or> double_underscore (b # cs))"
| "double_underscore _ = False"

definition max_str_digits :: nat where
  \<comment> \<open>the interpreter's default limit on the digits of a decimal literal\<close>
  "max_str_digits = 4300"

definition digits_value :: "pystr \<Rightarrow> int" where
  "digits_value ds = foldl (\<lambda>a c. 10 * a + int (the (py_todecimal c))) 0 ds"

definition py_int :: "pystr \<Rightarrow> int option" where
  \<comment> \<open>\<open>int(s)\<close> in base 10; \<open>None\<close> is the ValueError. The literal is optional
      whitespace, an optional sign, digits with single underscores between them,
      optional whitespace.\<close>
  "py_int s =
     (let t = dropWhile int_isspace s;
          neg = (t \<noteq> [] \<and> hd t = 45);
          u = (if t \<noteq> [] \<and> (hd t = 43 \<or> hd t = 45) then tl t else t);
          body = takeWhile is_literal_char u;
          rest = dropWhile is_literal_char u;
          ds = filter (\<lambda>c. c \<noteq> 95) body
      in if body = [] \<or> hd body = 95 \<or> last body = 95 \<or> double_underscore body
            \<or> max_str_digits < length ds \<or> \<not> list_all int_isspace rest
         then None
         else Some (if neg then - digits_value ds else digits_value ds))"

subsection \<open>Exceptions\<close>

text \<open>
  The exceptions that occur in the program: \<open>SystemExit code\<close> is raised by
  \<open>sys.exit(code)\<close>; \<open>ValueError\<close> is the one \<open>int()\<close> raises (no handler reads its
  text); \<open>RunError m\<close> is the exception \<open>subprocess.run\<close> raises (the program cannot be
  started, its output cannot be decoded, an argument holds a NUL character), an instance
  of \<open>Exception\<close> with \<open>str(e) = m\<close>. A function that may raise returns
  \<open>base_exception + 'a\<close>, \<open>Inl\<close> the exception that leaves it.
\<close>

datatype base_exception = SystemExit int | ValueError | RunError pystr

definition bare_except :: "base_exception \<Rightarrow> bool" where
  \<comment> \<open>\<open>except:\<close> with no class catches every \<open>BaseException\<close>\<close>
  "bare_except e = True"

definition try_except ::
  "(base_exception + 'a) \<Rightarrow> (base_exception \<Rightarrow> bool) \<Rightarrow>
   (base_exception \<Rightarrow> base_exception + 'a) \<Rightarrow> base_exception + 'a" where
  \<comment> \<open>\<open>try: body  except <catches> as e: handler\<close>\<close>
  "try_except body catches handler =
     (case body of
        Inl e \<Rightarrow> (if catches e then handler e else Inl e)
      | Inr v \<Rightarrow> Inr v)"

subsection \<open>External processes\<close>

text \<open>
  \<open>subprocess.run(argv, capture_output=True, text=True)\<close> either raises or returns the
  exit code and the decoded standard output and standard error. What the external tool
  does is not part of the program: an environment gives the outcome of each command line
  a handler runs (no handler runs the same command line twice).
\<close>

datatype run_outcome =
    Raised pystr
  | Completed (returncode: int) (stdout: pystr) (stderr: pystr)

type_synonym env = "pystr list \<Rightarrow> run_outcome"

definition count_argv :: "pystr list" where
  "count_argv =
     [lit ''task'', lit ''due.before:now+23h'', lit ''status:pending'', lit ''-OVERDUE'',
      lit ''count'']"

definition add_argv :: "pystr \<Rightarrow> pystr list" where
  \<comment> \<open>\<open>["task", "add"] + task_input.split()\<close>\<close>
  "add_argv task_input = [lit ''task'', lit ''add''] @ py_split task_input"

section \<open>The dialog\<close>

text \<open>
  The state of the running application: the fields of \<open>TaskDialog\<close> that the handlers
  read or write, and what the handlers ask of Qt (showing the window, quitting the event
  loop, one-shot timers). The window's geometry is computed in floating point and no
  handler below reads it; it is left out. Qt's own calls are taken to succeed.
  \<open>quit_called\<close> records that \<open>QApplication.quit()\<close> was called: the event loop
  then returns and \<open>sys.exit(app.exec())\<close> ends the process. \<open>single_shots\<close> are the
  one-shot timers registered and not yet fired, each with its delay in milliseconds.
\<close>

datatype slot = Check_tasks_external | Ensure_on_top | QApplication_quit

record qtimer =
  active :: bool
  interval :: nat
  timeout_slot :: slot

record task_dialog =
  entry_text :: pystr
  status_text :: pystr
  status_style :: pystr
  check_timer :: qtimer
  top_timer :: qtimer
  dragging :: bool
  shown :: bool
  quit_called :: bool
  single_shots :: "(nat \<times> slot) list"

definition initial_status_text :: pystr where
  \<comment> \<open>the hint: the window stays open until a valid task is added\<close>
  "initial_status_text =
     [25552, 31034, 65306, 27492, 31383, 21475, 23558, 20445, 25345, 25171, 24320, 30452,
      21040, 24744, 28155, 21152, 26377, 25928, 20219, 21153, 65288, 21487, 25302, 21160,
      31383, 21475, 65289]"

definition TaskDialog_init :: task_dialog where
  \<comment> \<open>\<open>TaskDialog.__init__\<close> with \<open>initUI\<close>: empty input, the hint in the status
      label, the check timer started at 2000 ms and the top timer at 500 ms\<close>
  "TaskDialog_init =
     \<lparr>entry_text = [],
      status_text = initial_status_text,
      status_style = lit ''color: #888; font-style: italic;'',
      check_timer = \<lparr>active = True, interval = 2000, timeout_slot = Check_tasks_external\<rparr>,
      top_timer = \<lparr>active = True, interval = 500, timeout_slot = Ensure_on_top\<rparr>,
      dragging = False,
      shown = False,
      quit_called = False,
      single_shots = []\<rparr>"

definition QWidget_show :: "task_dialog \<Rightarrow> task_dialog" where
  "QWidget_show d = d\<lparr>shown := True\<rparr>"

definition QTimer_stop :: "qtimer \<Rightarrow> qtimer" where
  "QTimer_stop t = t\<lparr>active := False\<rparr>"

definition QApplication_quit_now :: "task_dialog \<Rightarrow> task_dialog" where
  \<comment> \<open>\<open>QApplication.quit()\<close>: the event loop is told to return, which ends the
      process through \<open>sys.exit(app.exec())\<close>\<close>
  "QApplication_quit_now d = d\<lparr>quit_called := True\<rparr>"

definition QTimer_singleShot :: "nat \<Rightarrow> slot \<Rightarrow> task_dialog \<Rightarrow> task_dialog" where
  "QTimer_singleShot ms f d = d\<lparr>single_shots := single_shots d @ [(ms, f)]\<rparr>"

subsection \<open>Status messages\<close>

definition error_mark :: pystr where
  \<comment> \<open>a cross mark and a space\<close>
  "error_mark = [10060, 32]"

definition warning_mark :: pystr where
  \<comment> \<open>a warning sign (with its variation selector) and a space\<close>
  "warning_mark = [9888, 65039, 32]"

definition empty_input_message :: pystr where
  \<comment> \<open>"please enter the task content"\<close>
  "empty_input_message = [35831, 36755, 20837, 20219, 21153, 20869, 23481]"

definition add_failed_prefix :: pystr where
  \<comment> \<open>"adding failed:"\<close>
  "add_failed_prefix = [28155, 21152, 22833, 36133, 65306]"

definition run_error_prefix :: pystr where
  \<comment> \<open>"execution error:"\<close>
  "run_error_prefix = [25191, 34892, 38169, 35823, 65306]"

definition not_within_23h_message :: pystr where
  \<comment> \<open>"task added, but its due time is not within the next 23 hours"\<close>
  "not_within_23h_message =
     [20219, 21153, 24050, 28155, 21152, 65292, 20294, 21040, 26399, 26102, 38388, 19981,
      22312, 26410, 26469, 32, 50, 51, 32, 23567, 26102, 20869]"

definition success_text :: pystr where
  \<comment> \<open>a check mark and "task added successfully!"\<close>
  "success_text = [10003, 32, 20219, 21153, 24050, 25104, 21151, 28155, 21152, 65281]"

definition show_error :: "pystr \<Rightarrow> task_dialog \<Rightarrow> task_dialog" where
  "show_error msg d =
     d\<lparr>status_text := error_mark @ msg,
        status_style := lit ''color: #c01c28; font-weight: bold;''\<rparr>"

definition show_warning :: "pystr \<Rightarrow> task_dialog \<Rightarrow> task_dialog" where
  "show_warning msg d =
     d\<lparr>status_text := warning_mark @ msg,
        status_style := lit ''color: #e5a50a; font-weight: bold;''\<rparr>"

definition show_success :: "task_dialog \<Rightarrow> task_dialog" where
  "show_success d =
     d\<lparr>status_text := success_text,
        status_style := lit ''color: #26a269; font-weight: bold;''\<rparr>"

subsection \<open>The handlers\<close>

text \<open>
  A handler returns the command lines it handed to \<open>subprocess.run\<close>, in order, and
  the new state.
\<close>

definition int_of_str :: "pystr \<Rightarrow> base_exception + int" where
  "int_of_str s = (case py_int s of None \<Rightarrow> Inl ValueError | Some n \<Rightarrow> Inr n)"

definition has_valid_tasks :: "env \<Rightarrow> base_exception + bool" where
  "has_valid_tasks env =
     try_except
       (case env count_argv of
          Raised m \<Rightarrow> Inl (RunError m)
        | Completed rc out err \<Rightarrow>
            (case int_of_str (py_strip out) of
               Inl e \<Rightarrow> Inl e
             | Inr n \<Rightarrow> Inr (0 < n)))
       bare_except
       (\<lambda>e. Inr False)"

definition on_submit ::
  "env \<Rightarrow> task_dialog \<Rightarrow> base_exception + (pystr list list \<times> task_dialog)" where
  \<comment> \<open>the \<open>try\<close> holds the call of \<open>subprocess.run\<close> alone, so what
      \<open>except Exception as e\<close> catches is what that call raises\<close>
  "on_submit env d =
     (let task_input = py_strip (entry_text d)
      in if task_input = [] then Inr ([], show_error empty_input_message d)
         else
           (case env (add_argv task_input) of
              Raised m \<Rightarrow>
                Inr ([add_argv task_input], show_error (run_error_prefix @ m) d)
            | Completed rc out err \<Rightarrow>
                if rc \<noteq> 0
                then Inr ([add_argv task_input], show_error (add_failed_prefix @ err) d)
                else
                  (case has_valid_tasks env of
                     Inl e \<Rightarrow> Inl e
                   | Inr True \<Rightarrow>
                       Inr ([add_argv task_input, count_argv],
                            QTimer_singleShot 1000 QApplication_quit (show_success d))
                   | Inr False \<Rightarrow>
                       Inr ([add_argv task_input, count_argv],
                            (show_warning not_within_23h_message d)\<lparr>entry_text := []\<rparr>))))"

definition check_tasks_external ::
  "env \<Rightarrow> task_dialog \<Rightarrow> base_exception + (pystr list list \<times> task_dialog)" where
  "check_tasks_external env d =
     (case has_valid_tasks env of
        Inl e \<Rightarrow> Inl e
      | Inr True \<Rightarrow>
          Inr ([count_argv],
               QApplication_quit_now
                 (d\<lparr>check_timer := QTimer_stop (check_timer d),
                    top_timer := QTimer_stop (top_timer d)\<rparr>))
      | Inr False \<Rightarrow> Inr ([count_argv], d))"

subsection \<open>Startup\<close>

definition startup_check :: "env \<Rightarrow> base_exception + unit" where
  \<comment> \<open>the body of the \<open>try\<close> of \<open>main\<close>; \<open>sys.exit(0)\<close> raises \<open>SystemExit\<close>\<close>
  "startup_check env =
     (case env count_argv of
        Raised m \<Rightarrow> Inl (RunError m)
      | Completed rc out err \<Rightarrow>
          (case int_of_str (py_strip out) of
             Inl e \<Rightarrow> Inl e
           | Inr n \<Rightarrow> if 0 < n then Inl (SystemExit 0) else Inr ()))"

definition main :: "env \<Rightarrow> base_exception + task_dialog" where
  \<comment> \<open>\<open>main\<close> up to \<open>dialog.show()\<close>: \<open>Inl (SystemExit c)\<close> is the process ending
      with code \<open>c\<close> before any window exists, \<open>Inr d\<close> is the event loop entered on the
      dialog \<open>d\<close>\<close>
  "main env =
     (case try_except (startup_check env) bare_except (\<lambda>e. Inr ()) of
        Inl e \<Rightarrow> Inl e
      | Inr u \<Rightarrow> Inr (QWidget_show TaskDialog_init))"

subsection \<open>Splitting on whitespace, as the specification words it\<close>

fun split_at_whitespace :: "pystr \<Rightarrow> pystr list" where
  \<comment> \<open>the text cut at every whitespace character\<close>
  "split_at_whitespace [] = [[]]"
| "split_at_whitespace (c # cs) =
     (if py_isspace c then [] # split_at_whitespace cs
      else (case split_at_whitespace cs of
              [] \<Rightarrow> [[c]]
            | f # fs \<Rightarrow> (c # f) # fs))"

definition whitespace_tokens :: "pystr \<Rightarrow> pystr list" where
  \<comment> \<open>the non-empty pieces between whitespace, in order\<close>
  "whitespace_tokens s = filter (\<lambda>t. t \<noteq> []) (split_at_whitespace s)"

subsection \<open>What startup is observed to do\<close>

definition exits_without_window :: "base_exception + task_dialog \<Rightarrow> bool" where
  \<comment> \<open>the process ends at startup, before any window exists\<close>
  "exits_without_window r = (case r of Inl e \<Rightarrow> True | Inr d \<Rightarrow> False)"

definition window_shown :: "base_exception + task_dialog \<Rightarrow> bool" where
  \<comment> \<open>startup reaches the event loop with the dialog on screen\<close>
  "window_shown r = (case r of Inl e \<Rightarrow> False | Inr d \<Rightarrow> shown d)"

subsection \<open>Inputs used as examples\<close>

definition env_count :: "pystr \<Rightarrow> env" where
  \<comment> \<open>every command exits with code 0; the count query prints the given text\<close>
  "env_count out argv = (if argv = count_argv then Completed 0 out [] else Completed 0 [] [])"

definition env_not_found :: env where
  \<comment> \<open>no command can be started\<close>
  "env_not_found argv = Raised (lit ''[Errno 2] No such file or directory'')"

definition env_add_fails :: env where
  \<comment> \<open>the add command exits with code 1 and a diagnostic\<close>
  "env_add_fails argv =
     (if argv = count_argv then Completed 0 (lit ''0'') []
      else Completed 1 [] (lit ''invalid date''))"

definition dialog_with_input :: "pystr \<Rightarrow> task_dialog" where
  \<comment> \<open>the dialog as shown at startup, with text typed into the input field\<close>
  "dialog_with_input s = (QWidget_show TaskDialog_init)\<lparr>entry_text := s\<rparr>"

section \<open>Facts about the string functions\<close>

lemma py_split_Nil: "py_split [] = []"
  by (simp add: py_split.simps)

lemma py_split_space: "py_isspace c \<Longrightarrow> py_split (c # s) = py_split s"
  by (subst py_split.simps, subst (2) py_split.simps) simp

lemma py_split_nonspace:
  "\<not> py_isspace c \<Longrightarrow>
   py_split (c # s) =
     (c # takeWhile (\<lambda>c. \<not> py_isspace c) s) # py_split (dropWhile (\<lambda>c. \<not> py_isspace c) s)"
  by (subst py_split.simps) simp

lemma py_split_token:
  "takeWhile (\<lambda>c. \<not> py_isspace c) s \<noteq> [] \<Longrightarrow>
   py_split s =
     takeWhile (\<lambda>c. \<not> py_isspace c) s # py_split (dropWhile (\<lambda>c. \<not> py_isspace c) s)"
  by (cases s) (auto simp: py_split_nonspace split: if_splits)

lemma split_at_whitespace_shape:
  "split_at_whitespace s \<noteq> [] \<and>
   hd (split_at_whitespace s) = takeWhile (\<lambda>c. \<not> py_isspace c) s \<and>
   filter (\<lambda>t. t \<noteq> []) (tl (split_at_whitespace s)) =
     py_split (dropWhile (\<lambda>c. \<not> py_isspace c) s)"
proof (induction s)
  case Nil
  show ?case by (simp add: py_split_Nil)
next
  case (Cons c cs)
  obtain f fs where ffs: "split_at_whitespace cs = f # fs"
    using Cons.IH by (cases "split_at_whitespace cs") auto
  with Cons.IH have f: "f = takeWhile (\<lambda>c. \<not> py_isspace c) cs"
    and fs: "filter (\<lambda>t. t \<noteq> []) fs = py_split (dropWhile (\<lambda>c. \<not> py_isspace c) cs)"
    by simp_all
  show ?case
  proof (cases "py_isspace c")
    case True
    have "filter (\<lambda>t. t \<noteq> []) (f # fs) = py_split cs"
    proof (cases "f = []")
      case True
      then have "dropWhile (\<lambda>c. \<not> py_isspace c) cs = cs"
        using f by (cases cs) (auto split: if_splits)
      with True fs show ?thesis by simp
    next
      case False
      with f fs show ?thesis by (simp add: py_split_token)
    qed
    with True ffs show ?thesis by (simp add: py_split_space)
  next
    case False
    with ffs f fs show ?thesis by simp
  qed
qed

lemma whitespace_tokens_py_split: "whitespace_tokens s = py_split s"
proof (cases "takeWhile (\<lambda>c. \<not> py_isspace c) s = []")
  case True
  then have "dropWhile (\<lambda>c. \<not> py_isspace c) s = s"
    by (cases s) (auto split: if_splits)
  with True split_at_whitespace_shape [of s] show ?thesis
    by (cases "split_at_whitespace s") (auto simp: whitespace_tokens_def)
next
  case False
  with split_at_whitespace_shape [of s] show ?thesis
    by (cases "split_at_whitespace s") (auto simp: whitespace_tokens_def py_split_token)
qed

lemma py_strip_empty_iff: "py_strip s = [] \<longleftrightarrow> list_all py_isspace s"
proof -
  have "py_strip s = [] \<longleftrightarrow> (\<forall>x \<in> set (dropWhile py_isspace s). py_isspace x)"
    by (simp add: py_strip_def)
  also have "\<dots> \<longleftrightarrow> dropWhile py_isspace s = []"
  proof (cases "dropWhile py_isspace s")
    case Nil
    show ?thesis unfolding Nil by simp
  next
    case (Cons x xs)
    then have "\<not> py_isspace x" by (simp add: dropWhile_eq_Cons_conv)
    with Cons show ?thesis by auto
  qed
  also have "\<dots> \<longleftrightarrow> list_all py_isspace s"
    by (simp add: list_all_iff)
  finally show ?thesis .
qed

text \<open>The functions evaluated on the texts the examples use.\<close>

lemma py_int_count2: "py_int (py_strip [50, 10]) = Some 2"
  apply (simp add: py_int_def py_strip_def Let_def int_isspace_def py_isspace_def
      is_literal_char_def max_str_digits_def)
  apply (simp add: py_todecimal_def decimal_zeros_def digits_value_def)
  done

lemma py_int_count1: "py_int (py_strip [49, 10]) = Some 1"
  apply (simp add: py_int_def py_strip_def Let_def int_isspace_def py_isspace_def
      is_literal_char_def max_str_digits_def)
  apply (simp add: py_todecimal_def decimal_zeros_def digits_value_def)
  done

lemma py_int_count0: "py_int (py_strip [48, 10]) = Some 0"
  apply (simp add: py_int_def py_strip_def Let_def int_isspace_def py_isspace_def
      is_literal_char_def max_str_digits_def)
  apply (simp add: py_todecimal_def decimal_zeros_def digits_value_def)
  done

lemma py_int_nonnumeric: "py_int (py_strip (lit ''error'')) = None"
  apply (simp add: lit_def py_int_def py_strip_def Let_def int_isspace_def py_isspace_def
      is_literal_char_def max_str_digits_def)
  apply (simp add: py_todecimal_def decimal_zeros_def digits_value_def)
  done

lemma add_argv_neq_count_argv: "add_argv t \<noteq> count_argv"
  by (simp add: add_argv_def count_argv_def lit_def)

lemma add_argv_example:
  "add_argv (py_strip (lit '' buy milk  due:today '')) =
     [lit ''task'', lit ''add'', lit ''buy'', lit ''milk'', lit ''due:today'']"
  by (simp add: add_argv_def py_strip_def lit_def py_isspace_def py_split_Nil py_split_space
      py_split_nonspace)

section \<open>Facts about the handlers\<close>

lemma has_valid_tasks_eq:
  "has_valid_tasks env =
     Inr (case env count_argv of
            Raised m \<Rightarrow> False
          | Completed rc out err \<Rightarrow>
              (case py_int (py_strip out) of None \<Rightarrow> False | Some n \<Rightarrow> 0 < n))"
  by (simp add: has_valid_tasks_def try_except_def bare_except_def int_of_str_def
      split: run_outcome.splits option.splits)

lemma main_shows_window: "main env = Inr (QWidget_show TaskDialog_init)"
  by (simp add: main_def try_except_def bare_except_def split: sum.splits)

lemma has_valid_tasks_total: "has_valid_tasks env = Inr True \<or> has_valid_tasks env = Inr False"
  by (simp add: has_valid_tasks_eq)

lemma on_submit_raised:
  assumes "py_strip (entry_text d) \<noteq> []"
    and "env (add_argv (py_strip (entry_text d))) = Raised m"
  shows "on_submit env d =
     Inr ([add_argv (py_strip (entry_text d))], show_error (run_error_prefix @ m) d)"
  using assms by (simp add: on_submit_def)

lemma on_submit_nonzero:
  assumes "py_strip (entry_text d) \<noteq> []"
    and "env (add_argv (py_strip (entry_text d))) = Completed rc out err" and "rc \<noteq> 0"
  shows "on_submit env d =
     Inr ([add_argv (py_strip (entry_text d))], show_error (add_failed_prefix @ err) d)"
  using assms by (simp add: on_submit_def)

lemma on_submit_qualifying:
  assumes "py_strip (entry_text d) \<noteq> []"
    and "env (add_argv (py_strip (entry_text d))) = Completed 0 out err"
    and "has_valid_tasks env = Inr True"
  shows "on_submit env d =
     Inr ([add_argv (py_strip (entry_text d)), count_argv],
          QTimer_singleShot 1000 QApplication_quit (show_success d))"
  using assms by (simp add: on_submit_def)

lemma on_submit_not_qualifying:
  assumes "py_strip (entry_text d) \<noteq> []"
    and "env (add_argv (py_strip (entry_text d))) = Completed 0 out err"
    and "has_valid_tasks env = Inr False"
  shows "on_submit env d =
     Inr ([add_argv (py_strip (entry_text d)), count_argv],
          (show_warning not_within_23h_message d)\<lparr>entry_text := []\<rparr>)"
  using assms by (simp add: on_submit_def)

lemma on_submit_first_call:
  assumes ne: "py_strip (entry_text d) \<noteq> []"
  shows "\<exists>rest d'. on_submit env d = Inr (add_argv (py_strip (entry_text d)) # rest, d')
           \<and> (rest = [] \<or> rest = [count_argv])"
proof (cases "env (add_argv (py_strip (entry_text d)))")
  case (Raised m)
  with ne show ?thesis by (simp add: on_submit_raised)
next
  case (Completed rc out err)
  show ?thesis
  proof (cases "rc = 0")
    case False
    with ne Completed show ?thesis by (simp add: on_submit_nonzero)
  next
    case True
    with Completed have c: "env (add_argv (py_strip (entry_text d))) = Completed 0 out err"
      by simp
    from has_valid_tasks_total [of env] show ?thesis
    proof
      assume "has_valid_tasks env = Inr True"
      with ne c show ?thesis by (simp add: on_submit_qualifying)
    next
      assume "has_valid_tasks env = Inr False"
      with ne c show ?thesis by (simp add: on_submit_not_qualifying)
    qed
  qed
qed

section \<open>The claims\<close>

text \<open>
  Claim C1: at startup, when the query prints a positive count, the process should exit
  at once with code 0 and no window. The code calls \<open>sys.exit(0)\<close> inside the
  \<open>try\<close> whose bare \<open>except\<close> swallows every exception, \<open>SystemExit\<close>
  included: with the output \<open>2\<close> and a newline the check raises \<open>SystemExit 0\<close>,
  and \<open>main\<close> still goes on to create and show the dialog. The application quits
  only when the check timer's handler next sees the positive count.
\<close>

theorem main_positive_count_shows_window:
  "has_valid_tasks (env_count [50, 10]) = Inr True \<and>
   startup_check (env_count [50, 10]) = Inl (SystemExit 0) \<and>
   main (env_count [50, 10]) = Inr (QWidget_show TaskDialog_init) \<and>
   window_shown (main (env_count [50, 10])) \<and>
   \<not> exits_without_window (main (env_count [50, 10])) \<and>
   check_tasks_external (env_count [50, 10]) (QWidget_show TaskDialog_init) =
     Inr ([count_argv],
          (QWidget_show TaskDialog_init)
            \<lparr>check_timer := \<lparr>active = False, interval = 2000, timeout_slot = Check_tasks_external\<rparr>,
             top_timer := \<lparr>active = False, interval = 500, timeout_slot = Ensure_on_top\<rparr>,
             quit_called := True\<rparr>)"
  by (simp add: has_valid_tasks_eq main_shows_window startup_check_def int_of_str_def
      env_count_def py_int_count2 window_shown_def exits_without_window_def QWidget_show_def
      check_tasks_external_def QTimer_stop_def QApplication_quit_now_def TaskDialog_init_def)

text \<open>
  Claim C2, as amended: at startup, when the query cannot be run or prints text that is
  not a number, the process does not end; it creates and shows the dialog.
\<close>

theorem main_query_failure_shows_window:
  "env count_argv = Raised m \<or>
   (env count_argv = Completed rc out err \<and> py_int (py_strip out) = None) \<Longrightarrow>
   window_shown (main env)"
  by (simp add: main_shows_window window_shown_def QWidget_show_def)

theorem main_query_failure_shows_window_witness:
  "env_not_found count_argv = Raised (lit ''[Errno 2] No such file or directory'') \<and>
   window_shown (main env_not_found) \<and>
   env_count (lit ''error'') count_argv = Completed 0 (lit ''error'') [] \<and>
   py_int (py_strip (lit ''error'')) = None \<and>
   window_shown (main (env_count (lit ''error'')))"
proof -
  have r: "env_not_found count_argv = Raised (lit ''[Errno 2] No such file or directory'')"
    by (simp add: env_not_found_def)
  have c: "env_count (lit ''error'') count_argv = Completed 0 (lit ''error'') []"
    by (simp add: env_count_def)
  show ?thesis
    using r c py_int_nonnumeric
      main_query_failure_shows_window [of env_not_found, OF disjI1, OF r]
      main_query_failure_shows_window [of "env_count (lit ''error'')", OF disjI2, OF conjI,
        OF c py_int_nonnumeric]
    by simp
qed

text \<open>
  Claim C2 as stated (a failed or non-numeric query ends the process with no window)
  fails: neither a command that cannot be started nor the output \<open>error\<close> makes
  startup end without a window.
\<close>

theorem main_query_failure_counterexample:
  "env_not_found count_argv = Raised (lit ''[Errno 2] No such file or directory'') \<and>
   \<not> exits_without_window (main env_not_found) \<and>
   env_count (lit ''error'') count_argv = Completed 0 (lit ''error'') [] \<and>
   py_int (py_strip (lit ''error'')) = None \<and>
   \<not> exits_without_window (main (env_count (lit ''error'')))"
  by (simp add: env_not_found_def env_count_def main_shows_window exits_without_window_def
      py_int_nonnumeric)

text \<open>
  Claim C3: at startup, when the count is the integer 0, the output is not a number, or
  the query cannot be run, the dialog is created and shown.
\<close>

theorem main_no_task_shows_window:
  "env count_argv = Raised m \<or>
   (env count_argv = Completed rc out err \<and>
      (py_int (py_strip out) = None \<or> py_int (py_strip out) = Some 0)) \<Longrightarrow>
   window_shown (main env)"
  by (simp add: main_shows_window window_shown_def QWidget_show_def)

theorem main_no_task_shows_window_witness:
  "env_count [48, 10] count_argv = Completed 0 [48, 10] [] \<and>
   py_int (py_strip [48, 10]) = Some 0 \<and>
   window_shown (main (env_count [48, 10])) \<and>
   env_count (lit ''error'') count_argv = Completed 0 (lit ''error'') [] \<and>
   py_int (py_strip (lit ''error'')) = None \<and>
   window_shown (main (env_count (lit ''error''))) \<and>
   env_not_found count_argv = Raised (lit ''[Errno 2] No such file or directory'') \<and>
   window_shown (main env_not_found)"
proof -
  have r: "env_not_found count_argv = Raised (lit ''[Errno 2] No such file or directory'')"
    by (simp add: env_not_found_def)
  have c: "env_count (lit ''error'') count_argv = Completed 0 (lit ''error'') []"
    by (simp add: env_count_def)
  have z: "env_count [48, 10] count_argv = Completed 0 [48, 10] []"
    by (simp add: env_count_def)
  show ?thesis
    using r c z py_int_nonnumeric py_int_count0
      main_no_task_shows_window [of env_not_found
        "lit ''[Errno 2] No such file or directory''" 0 "[]" "[]"]
      main_no_task_shows_window [of "env_count (lit ''error'')" "[]" 0 "lit ''error''" "[]"]
      main_no_task_shows_window [of "env_count [48, 10]" "[]" 0 "[48, 10]" "[]"]
    by simp
qed

text \<open>
  Claim C4: \<open>has_valid_tasks\<close> returns true exactly when the query ran and its
  standard output, stripped, is an integer literal with a value above 0; it returns
  false when the query raised, when the output is not a literal, and when the value is
  0 or negative; it never raises.
\<close>

theorem has_valid_tasks_iff:
  "(has_valid_tasks env = Inr True \<longleftrightarrow>
      (\<exists>rc out err n. env count_argv = Completed rc out err \<and>
         py_int (py_strip out) = Some n \<and> 0 < n)) \<and>
   (has_valid_tasks env = Inr False \<longleftrightarrow>
      (\<exists>m. env count_argv = Raised m) \<or>
      (\<exists>rc out err. env count_argv = Completed rc out err \<and>
         (py_int (py_strip out) = None \<or>
          (\<exists>n. py_int (py_strip out) = Some n \<and> n \<le> 0)))) \<and>
   (has_valid_tasks env = Inr True \<or> has_valid_tasks env = Inr False)"
  by (cases "env count_argv") (auto simp: has_valid_tasks_eq split: option.splits)

theorem has_valid_tasks_iff_witness:
  "has_valid_tasks (env_count [50, 10]) = Inr True \<and>
   has_valid_tasks (env_count [48, 10]) = Inr False \<and>
   has_valid_tasks (env_count (lit ''error'')) = Inr False \<and>
   has_valid_tasks env_not_found = Inr False"
  using has_valid_tasks_iff [of "env_count [50, 10]"]
    has_valid_tasks_iff [of "env_count [48, 10]"]
    has_valid_tasks_iff [of "env_count (lit ''error'')"]
    has_valid_tasks_iff [of env_not_found]
  by (simp add: env_count_def env_not_found_def py_int_count2 py_int_count0 py_int_nonnumeric)

text \<open>
  Claim C5: when the input is empty or only whitespace, \<open>on_submit\<close> runs no
  command, sets the status label to the error asking for the task content, and changes
  nothing else: the input text, the window, the timers are as before.
\<close>

theorem on_submit_blank:
  "list_all py_isspace (entry_text d) \<Longrightarrow>
   on_submit env d =
     Inr ([], d\<lparr>status_text := error_mark @ empty_input_message,
                status_style := lit ''color: #c01c28; font-weight: bold;''\<rparr>)"
  by (simp add: on_submit_def py_strip_empty_iff show_error_def)

theorem on_submit_blank_witness:
  "list_all py_isspace (entry_text (dialog_with_input (lit ''   ''))) \<and>
   on_submit env_not_found (dialog_with_input (lit ''   '')) =
     Inr ([], (dialog_with_input (lit ''   ''))
                \<lparr>status_text := error_mark @ empty_input_message,
                 status_style := lit ''color: #c01c28; font-weight: bold;''\<rparr>)"
proof -
  have h: "list_all py_isspace (entry_text (dialog_with_input (lit ''   '')))"
    by (simp add: dialog_with_input_def lit_def py_isspace_def)
  show ?thesis using h on_submit_blank [OF h, of env_not_found] by simp
qed

text \<open>
  Claim C6: when the input is not blank, the first command \<open>on_submit\<close> runs is
  \<open>task add\<close> followed by the tokens of the stripped input, that is, its non-empty
  pieces between whitespace, in order and unchanged; the only command that may follow is
  the count query.
\<close>

theorem on_submit_passes_tokens:
  "\<not> list_all py_isspace (entry_text d) \<Longrightarrow>
   \<exists>rest d'. on_submit env d =
     Inr ((lit ''task'' # lit ''add'' # whitespace_tokens (py_strip (entry_text d))) # rest, d')
     \<and> (rest = [] \<or> rest = [count_argv])"
  using on_submit_first_call [of d env]
  by (simp add: py_strip_empty_iff add_argv_def whitespace_tokens_py_split)

theorem on_submit_passes_tokens_witness:
  "\<not> list_all py_isspace (entry_text (dialog_with_input (lit '' buy milk  due:today ''))) \<and>
   whitespace_tokens (py_strip (lit '' buy milk  due:today '')) =
     [lit ''buy'', lit ''milk'', lit ''due:today''] \<and>
   (\<exists>rest d'. on_submit (env_count [49, 10]) (dialog_with_input (lit '' buy milk  due:today '')) =
      Inr ([lit ''task'', lit ''add'', lit ''buy'', lit ''milk'', lit ''due:today''] # rest, d')
      \<and> (rest = [] \<or> rest = [count_argv]))"
proof -
  have h: "\<not> list_all py_isspace (entry_text (dialog_with_input (lit '' buy milk  due:today '')))"
    by (simp add: dialog_with_input_def lit_def py_isspace_def)
  have e: "entry_text (dialog_with_input (lit '' buy milk  due:today '')) =
           lit '' buy milk  due:today ''"
    by (simp add: dialog_with_input_def)
  have t: "whitespace_tokens (py_strip (lit '' buy milk  due:today '')) =
           [lit ''buy'', lit ''milk'', lit ''due:today'']"
    using add_argv_example by (simp add: add_argv_def whitespace_tokens_py_split)
  show ?thesis
    using h t on_submit_passes_tokens [OF h, of "env_count [49, 10]"] by (simp add: e)
qed

text \<open>
  Claim C7: when the add command exits with a code other than 0, or cannot be run,
  \<open>on_submit\<close> sets the status label to an error that ends with the captured standard
  error, or with the text of the exception; the input text is kept, nothing asks the
  application to quit, and the add command is the only command run (the count query is
  not).
\<close>

theorem on_submit_add_fails:
  assumes "\<not> list_all py_isspace (entry_text d)"
  shows "(env (add_argv (py_strip (entry_text d))) = Completed rc out err \<and> rc \<noteq> 0 \<longrightarrow>
          on_submit env d =
            Inr ([add_argv (py_strip (entry_text d))],
                 d\<lparr>status_text := error_mark @ add_failed_prefix @ err,
                   status_style := lit ''color: #c01c28; font-weight: bold;''\<rparr>)) \<and>
         (env (add_argv (py_strip (entry_text d))) = Raised m \<longrightarrow>
          on_submit env d =
            Inr ([add_argv (py_strip (entry_text d))],
                 d\<lparr>status_text := error_mark @ run_error_prefix @ m,
                   status_style := lit ''color: #c01c28; font-weight: bold;''\<rparr>)) \<and>
         add_argv (py_strip (entry_text d)) \<noteq> count_argv"
  using assms
  by (auto simp: py_strip_empty_iff on_submit_raised on_submit_nonzero show_error_def
      add_argv_neq_count_argv)

theorem on_submit_add_fails_witness:
  "\<not> list_all py_isspace (entry_text (dialog_with_input (lit ''meeting due:2h''))) \<and>
   env_add_fails (add_argv (py_strip (entry_text (dialog_with_input (lit ''meeting due:2h''))))) =
     Completed 1 [] (lit ''invalid date'') \<and>
   on_submit env_add_fails (dialog_with_input (lit ''meeting due:2h'')) =
     Inr ([add_argv (py_strip (entry_text (dialog_with_input (lit ''meeting due:2h''))))],
          (dialog_with_input (lit ''meeting due:2h''))
            \<lparr>status_text := error_mark @ add_failed_prefix @ lit ''invalid date'',
             status_style := lit ''color: #c01c28; font-weight: bold;''\<rparr>) \<and>
   env_not_found (add_argv (py_strip (entry_text (dialog_with_input (lit ''meeting due:2h''))))) =
     Raised (lit ''[Errno 2] No such file or directory'') \<and>
   on_submit env_not_found (dialog_with_input (lit ''meeting due:2h'')) =
     Inr ([add_argv (py_strip (entry_text (dialog_with_input (lit ''meeting due:2h''))))],
          (dialog_with_input (lit ''meeting due:2h''))
            \<lparr>status_text := error_mark @ run_error_prefix @
                              lit ''[Errno 2] No such file or directory'',
             status_style := lit ''color: #c01c28; font-weight: bold;''\<rparr>)"
proof -
  have h: "\<not> list_all py_isspace (entry_text (dialog_with_input (lit ''meeting due:2h'')))"
    by (simp add: dialog_with_input_def lit_def py_isspace_def)
  have a: "env_add_fails (add_argv (py_strip (entry_text (dialog_with_input (lit ''meeting due:2h''))))) =
           Completed 1 [] (lit ''invalid date'')"
    by (simp add: env_add_fails_def add_argv_neq_count_argv)
  have b: "env_not_found (add_argv (py_strip (entry_text (dialog_with_input (lit ''meeting due:2h''))))) =
           Raised (lit ''[Errno 2] No such file or directory'')"
    by (simp add: env_not_found_def)
  show ?thesis
    using h a b
      on_submit_add_fails [OF h, of env_add_fails 1 "[]" "lit ''invalid date''"]
      on_submit_add_fails [OF h, of env_not_found _ _ _ "lit ''[Errno 2] No such file or directory''"]
    by simp
qed

text \<open>
  Claim C8: when the add command exits with code 0 and \<open>has_valid_tasks\<close> then
  returns true, \<open>on_submit\<close> sets the status label to the success message and
  registers a one-shot timer of 1000 ms on \<open>QApplication.quit\<close>.
\<close>

theorem on_submit_success:
  assumes "\<not> list_all py_isspace (entry_text d)"
    and "env (add_argv (py_strip (entry_text d))) = Completed 0 out err"
    and "has_valid_tasks env = Inr True"
  shows "on_submit env d =
     Inr ([add_argv (py_strip (entry_text d)), count_argv],
          d\<lparr>status_text := success_text,
            status_style := lit ''color: #26a269; font-weight: bold;'',
            single_shots := single_shots d @ [(1000, QApplication_quit)]\<rparr>)"
  using assms
  by (simp add: py_strip_empty_iff on_submit_qualifying show_success_def QTimer_singleShot_def)

theorem on_submit_success_witness:
  "\<not> list_all py_isspace (entry_text (dialog_with_input (lit '' buy milk  due:today ''))) \<and>
   env_count [49, 10] (add_argv (py_strip (entry_text (dialog_with_input (lit '' buy milk  due:today ''))))) =
     Completed 0 [] [] \<and>
   has_valid_tasks (env_count [49, 10]) = Inr True \<and>
   on_submit (env_count [49, 10]) (dialog_with_input (lit '' buy milk  due:today '')) =
     Inr ([[lit ''task'', lit ''add'', lit ''buy'', lit ''milk'', lit ''due:today''], count_argv],
          (dialog_with_input (lit '' buy milk  due:today ''))
            \<lparr>status_text := success_text,
             status_style := lit ''color: #26a269; font-weight: bold;'',
             single_shots := [(1000, QApplication_quit)]\<rparr>)"
proof -
  have h: "\<not> list_all py_isspace (entry_text (dialog_with_input (lit '' buy milk  due:today '')))"
    by (simp add: dialog_with_input_def lit_def py_isspace_def)
  have a: "env_count [49, 10] (add_argv (py_strip (entry_text (dialog_with_input (lit '' buy milk  due:today ''))))) =
           Completed 0 [] []"
    by (simp add: env_count_def add_argv_neq_count_argv)
  have v: "has_valid_tasks (env_count [49, 10]) = Inr True"
    by (simp add: has_valid_tasks_eq env_count_def py_int_count1)
  have e: "entry_text (dialog_with_input (lit '' buy milk  due:today '')) =
           lit '' buy milk  due:today ''"
    by (simp add: dialog_with_input_def)
  have s: "single_shots (dialog_with_input (lit '' buy milk  due:today '')) = []"
    by (simp add: dialog_with_input_def QWidget_show_def TaskDialog_init_def)
  show ?thesis
    using h a v on_submit_success [OF h a v] by (simp add: e s add_argv_example)
qed

text \<open>
  Claim C9: when the add command exits with code 0 and \<open>has_valid_tasks\<close> then
  returns false, \<open>on_submit\<close> sets the status label to the warning that the due time
  is not within the next 23 hours and clears the input; the window stays, and nothing
  asks the application to quit.
\<close>

theorem on_submit_warning:
  assumes "\<not> list_all py_isspace (entry_text d)"
    and "env (add_argv (py_strip (entry_text d))) = Completed 0 out err"
    and "has_valid_tasks env = Inr False"
  shows "on_submit env d =
     Inr ([add_argv (py_strip (entry_text d)), count_argv],
          d\<lparr>entry_text := [],
            status_text := warning_mark @ not_within_23h_message,
            status_style := lit ''color: #e5a50a; font-weight: bold;''\<rparr>)"
  using assms
  by (simp add: py_strip_empty_iff on_submit_not_qualifying show_warning_def)

theorem on_submit_warning_witness:
  "\<not> list_all py_isspace (entry_text (dialog_with_input (lit '' buy milk  due:today ''))) \<and>
   env_count [48, 10] (add_argv (py_strip (entry_text (dialog_with_input (lit '' buy milk  due:today ''))))) =
     Completed 0 [] [] \<and>
   has_valid_tasks (env_count [48, 10]) = Inr False \<and>
   on_submit (env_count [48, 10]) (dialog_with_input (lit '' buy milk  due:today '')) =
     Inr ([[lit ''task'', lit ''add'', lit ''buy'', lit ''milk'', lit ''due:today''], count_argv],
          (dialog_with_input (lit '' buy milk  due:today ''))
            \<lparr>entry_text := [],
             status_text := warning_mark @ not_within_23h_message,
             status_style := lit ''color: #e5a50a; font-weight: bold;''\<rparr>)"
proof -
  have h: "\<not> list_all py_isspace (entry_text (dialog_with_input (lit '' buy milk  due:today '')))"
    by (simp add: dialog_with_input_def lit_def py_isspace_def)
  have a: "env_count [48, 10] (add_argv (py_strip (entry_text (dialog_with_input (lit '' buy milk  due:today ''))))) =
           Completed 0 [] []"
    by (simp add: env_count_def add_argv_neq_count_argv)
  have v: "has_valid_tasks (env_count [48, 10]) = Inr False"
    by (simp add: has_valid_tasks_eq env_count_def py_int_count0)
  have e: "entry_text (dialog_with_input (lit '' buy milk  due:today '')) =
           lit '' buy milk  due:today ''"
    by (simp add: dialog_with_input_def)
  show ?thesis
    using h a v on_submit_warning [OF h a v] by (simp add: e add_argv_example)
qed

text \<open>
  Claim C10: the check timer is started with an interval of 2000 ms on
  \<open>check_tasks_external\<close>. When \<open>has_valid_tasks\<close> returns true the handler stops
  both timers and calls \<open>QApplication.quit\<close>; when it returns false, as it does when
  the query cannot be run, the state is unchanged; and it returns one or the other.
\<close>

theorem check_tasks_external_effect:
  "check_timer TaskDialog_init =
     \<lparr>active = True, interval = 2000, timeout_slot = Check_tasks_external\<rparr> \<and>
   (has_valid_tasks env = Inr True \<longrightarrow>
      check_tasks_external env d =
        Inr ([count_argv],
             d\<lparr>check_timer := (check_timer d)\<lparr>active := False\<rparr>,
               top_timer := (top_timer d)\<lparr>active := False\<rparr>,
               quit_called := True\<rparr>)) \<and>
   (has_valid_tasks env = Inr False \<longrightarrow> check_tasks_external env d = Inr ([count_argv], d)) \<and>
   (env count_argv = Raised m \<longrightarrow> check_tasks_external env d = Inr ([count_argv], d)) \<and>
   (has_valid_tasks env = Inr True \<or> has_valid_tasks env = Inr False)"
  by (auto simp: check_tasks_external_def TaskDialog_init_def QTimer_stop_def
      QApplication_quit_now_def has_valid_tasks_eq)

theorem check_tasks_external_effect_witness:
  "has_valid_tasks (env_count [49, 10]) = Inr True \<and>
   check_tasks_external (env_count [49, 10]) (dialog_with_input []) =
     Inr ([count_argv],
          (dialog_with_input [])
            \<lparr>check_timer := \<lparr>active = False, interval = 2000, timeout_slot = Check_tasks_external\<rparr>,
             top_timer := \<lparr>active = False, interval = 500, timeout_slot = Ensure_on_top\<rparr>,
             quit_called := True\<rparr>) \<and>
   has_valid_tasks (env_count [48, 10]) = Inr False \<and>
   check_tasks_external (env_count [48, 10]) (dialog_with_input []) =
     Inr ([count_argv], dialog_with_input []) \<and>
   env_not_found count_argv = Raised (lit ''[Errno 2] No such file or directory'') \<and>
   check_tasks_external env_not_found (dialog_with_input []) =
     Inr ([count_argv], dialog_with_input [])"
proof -
  have v1: "has_valid_tasks (env_count [49, 10]) = Inr True"
    by (simp add: has_valid_tasks_eq env_count_def py_int_count1)
  have v0: "has_valid_tasks (env_count [48, 10]) = Inr False"
    by (simp add: has_valid_tasks_eq env_count_def py_int_count0)
  have r: "env_not_found count_argv = Raised (lit ''[Errno 2] No such file or directory'')"
    by (simp add: env_not_found_def)
  have t: "check_timer (dialog_with_input []) =
             \<lparr>active = True, interval = 2000, timeout_slot = Check_tasks_external\<rparr>"
    "top_timer (dialog_with_input []) =
             \<lparr>active = True, interval = 500, timeout_slot = Ensure_on_top\<rparr>"
    by (simp_all add: dialog_with_input_def QWidget_show_def TaskDialog_init_def)
  show ?thesis
    using v1 v0 r
      check_tasks_external_effect [of "env_count [49, 10]" "dialog_with_input []"]
      check_tasks_external_effect [of "env_count [48, 10]" "dialog_with_input []"]
      check_tasks_external_effect [of env_not_found "dialog_with_input []"
        "lit ''[Errno 2] No such file or directory''"]
    by (simp add: t)
qed

end
